theory Spec2Isabelle
  imports Main
begin

section \<open>The frontend API client (lib/api.ts)\<close>

text \<open>
  The client is asynchronous TypeScript. Every function is embedded as a function of the
  module state (the in-memory cache, and the sequence of effects issued so far) and
  of what the environment answers during the call: the readings of \<open>Date.now()\<close> and
  the outcome of \<open>fetch\<close>. A thrown exception (a rejected promise) is the \<open>Inl\<close> side of the
  result. Console output has no influence on control flow and is left out. Calls are
  taken one at a time: the state a call leaves is the state the next call finds.
\<close>

subsection \<open>Values\<close>

text \<open>The type parameter \<open>T\<close> of the source is erased at run time: data are JSON values.\<close>

datatype json =
    JNull
  | JBool bool
  | JNum int
  | JStr string
  | JArr "json list"
  | JObj "(string \<times> json) list"

text \<open>JavaScript truthiness, as the conditional of \<open>getContacts\<close> reads it.\<close>

fun truthy :: "json \<Rightarrow> bool" where
  "truthy JNull = False"
| "truthy (JBool b) = b"
| "truthy (JNum n) = (n \<noteq> 0)"
| "truthy (JStr s) = (s \<noteq> [])"
| "truthy (JArr xs) = True"
| "truthy (JObj kvs) = True"

text \<open>
  A thrown value: an instance of \<open>Error\<close> with its \<open>name\<close> and \<open>message\<close>, or anything
  else (\<open>error instanceof Error\<close> is false).
\<close>

datatype thrown =
    ErrorObj string string
  | NonError json

text \<open>\<open>interface ApiResponse<T>\<close>\<close>

record ApiResponse =
  success :: bool
  message :: string
  data :: json

text \<open>The entries of \<open>apiCache\<close>: \<open>{ data, timestamp }\<close>.\<close>

record cache_entry =
  entry_data :: json
  timestamp :: int

text \<open>
  An abort signal is either the one made by \<open>AbortSignal.timeout(ms)\<close> or one the caller
  made, identified by a number.
\<close>

datatype abort_signal =
    TimeoutSignal int
  | CallerSignal nat

text \<open>
  A key of an options object: absent, or present and holding \<open>undefined\<close>, \<open>null\<close> or a
  value. The difference between an absent key and a present key that holds \<open>undefined\<close>
  shows when the object is spread into another one: only a present key overwrites.
\<close>

datatype 'a keyval =
    Absent
  | Undefined
  | Null
  | Value 'a

text \<open>
  The fields of \<open>RequestInit\<close> that \<open>api\<close> reads or sets.
  \<open>skipCache\<close> is read through \<open>(options as any).skipCache || false\<close>.
  The key \<open>method\<close> is the field \<open>http_method\<close>, and the \<open>data\<close> of a cache entry is the
  field \<open>entry_data\<close>, because the plain names are taken.
\<close>

record RequestInit =
  http_method :: "string keyval"
  headers :: "(string \<times> string) list keyval"
  signal :: "abort_signal keyval"
  credentials :: "string keyval"
  skipCache :: bool

definition no_options :: RequestInit where
  "no_options = \<lparr>http_method = Absent, headers = Absent, signal = Absent,
     credentials = Absent, skipCache = False\<rparr>"

text \<open>
  What \<open>fetch(url, config)\<close> answers: a rejection, or a response. \<open>json_body\<close> is what
  \<open>await response.json()\<close> and the reads of \<open>result.success\<close> and \<open>result.data\<close> give: an
  \<open>ApiResponse\<close>, as the source types it, or what they throw (a body that is not JSON; a
  body \<open>null\<close>, whose fields cannot be read).
\<close>

record Response =
  ok :: bool
  status :: nat
  statusText :: string
  json_body :: "thrown + ApiResponse"

datatype fetch_outcome =
    Rejects thrown
  | Resolves Response

text \<open>
  The environment of one call of \<open>api\<close>: \<open>Date.now()\<close> at the cache check, what
  \<open>AbortSignal.timeout\<close> throws when it refuses its argument, what \<open>fetch\<close> and
  \<open>response.json()\<close> answer, and \<open>Date.now()\<close> when the result is stored.
\<close>

record call_env =
  now_check :: int
  range_error :: thrown
  fetched :: fetch_outcome
  now_store :: int

datatype event =
    Fetch string RequestInit
  | SetTimeout nat

record world =
  NEXT_PUBLIC_API_URL :: "string option"
  apiCache :: "string \<rightharpoonup> cache_entry"
  trace :: "event list"

subsection \<open>Strings\<close>

fun is_prefix_of :: "string \<Rightarrow> string \<Rightarrow> bool" where
  "is_prefix_of [] ys = True"
| "is_prefix_of (x # xs) [] = False"
| "is_prefix_of (x # xs) (y # ys) = (x = y \<and> is_prefix_of xs ys)"

text \<open>\<open>String.prototype.includes\<close>\<close>

fun str_includes :: "string \<Rightarrow> string \<Rightarrow> bool" where
  "str_includes [] sub = is_prefix_of sub []"
| "str_includes (c # cs) sub = (is_prefix_of sub (c # cs) \<or> str_includes cs sub)"

definition digit :: "nat \<Rightarrow> char" where
  "digit n = ''0123456789'' ! n"

text \<open>The decimal text of \<open>response.status\<close> inside a template string.\<close>

function string_of_nat :: "nat \<Rightarrow> string" where
  "string_of_nat n =
     (if n < 10 then [digit n] else string_of_nat (n div 10) @ [digit (n mod 10)])"
  by pat_completeness auto
termination
  by (relation "measure (\<lambda>n. n)") auto

declare string_of_nat.simps [simp del]

subsection \<open>api\<close>

definition API_BASE_URL :: "string option \<Rightarrow> string" where
  "API_BASE_URL env_url =
     (case env_url of
        None \<Rightarrow> ''http://127.0.0.1:8000/api''
      | Some u \<Rightarrow> if u = [] then ''http://127.0.0.1:8000/api'' else u)"

definition CACHE_TTL :: int where
  "CACHE_TTL = 5000"

definition timeout_message :: string where
  "timeout_message =
     ''API request timeout: The backend is taking too long to respond. Please ensure the Octane server is running.''"

text \<open>\<open>options.method || 'GET'\<close>\<close>

definition method_of :: "RequestInit \<Rightarrow> string" where
  "method_of options =
     (case http_method options of
        Value m \<Rightarrow> if m = [] then ''GET'' else m
      | _ \<Rightarrow> ''GET'')"

text \<open>The default of the parameter: \<open>timeoutMs: number = 30000\<close>.\<close>

definition timeout_of :: "int option \<Rightarrow> int" where
  "timeout_of timeoutMs_arg = (case timeoutMs_arg of None \<Rightarrow> 30000 | Some t \<Rightarrow> t)"

text \<open>
  \<open>AbortSignal.timeout(ms)\<close> belongs to the platform. It checks its argument before it
  makes a signal: the delay must be an integer from 0 to 4294967295 (an unsigned 32-bit
  number, the check of Node.js), and it throws a \<open>RangeError\<close> otherwise. The delay is
  an integer here; what is thrown is the environment's \<open>range_error\<close>.
\<close>

definition delay_in_range :: "int \<Rightarrow> bool" where
  "delay_in_range ms = (0 \<le> ms \<and> ms \<le> 4294967295)"

definition AbortSignal_timeout :: "call_env \<Rightarrow> int \<Rightarrow> thrown + abort_signal" where
  "AbortSignal_timeout env ms =
     (if delay_in_range ms then Inr (TimeoutSignal ms) else Inl (range_error env))"

definition cacheKey_of :: "world \<Rightarrow> string \<Rightarrow> RequestInit \<Rightarrow> string" where
  "cacheKey_of st endpoint options =
     method_of options @ '':'' @ (API_BASE_URL (NEXT_PUBLIC_API_URL st) @ endpoint)"

text \<open>
  The cache check of lines 23 to 28: the data to return at once, if any.
\<close>

definition cache_check :: "world \<Rightarrow> string \<Rightarrow> RequestInit \<Rightarrow> int \<Rightarrow> json option" where
  "cache_check st endpoint options now =
     (if method_of options = ''GET'' \<and> \<not> skipCache options then
        (case apiCache st (cacheKey_of st endpoint options) of
           None \<Rightarrow> None
         | Some cached \<Rightarrow>
             if now - timestamp cached < CACHE_TTL then Some (entry_data cached) else None)
      else None)"

text \<open>
  The object literal of lines 30 to 39, which stands before the \<open>try\<close>: what it throws
  leaves \<open>api\<close> uncaught. \<open>options.signal ?? AbortSignal.timeout(timeoutMs)\<close> calls
  \<open>AbortSignal.timeout\<close> only when \<open>options.signal\<close> is \<open>undefined\<close> or \<open>null\<close>, which it is
  for an absent key too. The literal's own keys come first and \<open>...options\<close> is spread
  last, so every key present in \<open>options\<close> replaces the literal's, whatever it holds.
  Spreading \<open>options.headers\<close> adds nothing when it is \<open>undefined\<close> or \<open>null\<close>.
\<close>

definition make_config :: "RequestInit \<Rightarrow> int \<Rightarrow> call_env \<Rightarrow> thrown + RequestInit" where
  "make_config options timeoutMs env =
     (let literal_headers =
            (''Content-Type'', ''application/json'') #
              (case headers options of Value hs \<Rightarrow> hs | _ \<Rightarrow> [])
      in case (case signal options of
                 Value s \<Rightarrow> Inr s
               | _ \<Rightarrow> AbortSignal_timeout env timeoutMs) of
           Inl e \<Rightarrow> Inl e
         | Inr literal_signal \<Rightarrow>
             Inr \<lparr>http_method = http_method options,
                  headers = (case headers options of Absent \<Rightarrow> Value literal_headers | h \<Rightarrow> h),
                  signal = (case signal options of Absent \<Rightarrow> Value literal_signal | g \<Rightarrow> g),
                  credentials =
                    (case credentials options of Absent \<Rightarrow> Value ''include'' | c \<Rightarrow> c),
                  skipCache = skipCache options\<rparr>)"

text \<open>
  Line 37 throws nothing: the options hold a signal, or the delay is in range.
\<close>

definition builds_config :: "RequestInit \<Rightarrow> int option \<Rightarrow> bool" where
  "builds_config options timeoutMs_arg =
     (case signal options of
        Value s \<Rightarrow> True
      | _ \<Rightarrow> delay_in_range (timeout_of timeoutMs_arg))"

text \<open>
  The \<open>try\<close> block, from the answer of \<open>fetch\<close> on: the data returned and the cache after
  line 56, or what was thrown.
\<close>

definition api_try ::
  "string \<Rightarrow> string \<Rightarrow> call_env \<Rightarrow> (string \<rightharpoonup> cache_entry) \<Rightarrow>
     thrown + (json \<times> (string \<rightharpoonup> cache_entry))" where
  "api_try meth cacheKey env cache =
     (case fetched env of
        Rejects e \<Rightarrow> Inl e
      | Resolves response \<Rightarrow>
          if \<not> ok response then
            Inl (ErrorObj ''Error''
              (''API request failed: '' @ string_of_nat (status response) @ '' '' @
                 statusText response))
          else
            (case json_body response of
               Inl e \<Rightarrow> Inl e
             | Inr result \<Rightarrow>
                 Inr (data result,
                   if meth = ''GET'' \<and> success result then
                     cache(cacheKey \<mapsto> \<lparr>entry_data = data result, timestamp = now_store env\<rparr>)
                   else cache)))"

text \<open>The \<open>catch\<close> block of lines 59 to 79.\<close>

definition api_catch ::
  "string \<Rightarrow> string \<Rightarrow> (string \<rightharpoonup> cache_entry) \<Rightarrow> thrown \<Rightarrow> thrown + json" where
  "api_catch meth cacheKey cache error =
     (case (if meth = ''GET'' then cache cacheKey else None) of
        Some cached \<Rightarrow> Inr (entry_data cached)
      | None \<Rightarrow>
          (case error of
             ErrorObj nm msg \<Rightarrow>
               if nm = ''AbortError'' \<or> str_includes msg ''timeout'' then
                 Inl (ErrorObj ''Error'' timeout_message)
               else Inl error
           | NonError v \<Rightarrow> Inl (ErrorObj ''Error'' ''Unknown API request error'')))"

definition api ::
  "string \<Rightarrow> RequestInit \<Rightarrow> int option \<Rightarrow> call_env \<Rightarrow> world \<Rightarrow> (thrown + json) \<times> world" where
  "api endpoint options timeoutMs_arg env st =
     (let timeoutMs = timeout_of timeoutMs_arg;
          url = API_BASE_URL (NEXT_PUBLIC_API_URL st) @ endpoint;
          meth = method_of options;
          cacheKey = cacheKey_of st endpoint options
      in case cache_check st endpoint options (now_check env) of
           Some d \<Rightarrow> (Inr d, st)
         | None \<Rightarrow>
             (case make_config options timeoutMs env of
                Inl e \<Rightarrow> (Inl e, st)
              | Inr config \<Rightarrow>
                  (let st1 = st\<lparr>trace := trace st @ [Fetch url config]\<rparr>
                   in case api_try meth cacheKey env (apiCache st1) of
                        Inr (d, cache') \<Rightarrow> (Inr d, st1\<lparr>apiCache := cache'\<rparr>)
                      | Inl error \<Rightarrow> (api_catch meth cacheKey (apiCache st1) error, st1))))"

subsection \<open>getCctvStreamUrl\<close>

definition attempts :: "int list" where
  "attempts = [12000, 15000, 20000]"

definition stream_endpoint :: "string \<Rightarrow> string" where
  "stream_endpoint cctvId = ''/cctvs/stream/'' @ cctvId"

definition empty_stream :: json where
  "empty_stream = JObj [(''stream_url'', JStr [])]"

definition delay :: "nat \<Rightarrow> world \<Rightarrow> world" where
  "delay ms st = st\<lparr>trace := trace st @ [SetTimeout ms]\<rparr>"

text \<open>
  The \<open>for\<close> loop from index \<open>i\<close> on, and the \<open>return\<close> after it. \<open>envs i\<close> is the
  environment of the call of \<open>api\<close> in iteration \<open>i\<close>.
\<close>

function getCctvStreamUrl_from ::
  "string \<Rightarrow> (nat \<Rightarrow> call_env) \<Rightarrow> nat \<Rightarrow> world \<Rightarrow> (thrown + json) \<times> world" where
  "getCctvStreamUrl_from cctvId envs i st =
     (if i < length attempts then
        (case api (stream_endpoint cctvId) no_options (Some (attempts ! i)) (envs i) st of
           (Inr response, st') \<Rightarrow> (Inr response, st')
         | (Inl error, st') \<Rightarrow>
             if i = length attempts - 1 then getCctvStreamUrl_from cctvId envs (i + 1) st'
             else getCctvStreamUrl_from cctvId envs (i + 1) (delay 750 st'))
      else (Inr empty_stream, st))"
  by pat_completeness auto
termination
  by (relation "measure (\<lambda>(cctvId, envs, i, st). length attempts - i)") auto

declare getCctvStreamUrl_from.simps [simp del]

definition getCctvStreamUrl ::
  "string \<Rightarrow> (nat \<Rightarrow> call_env) \<Rightarrow> world \<Rightarrow> (thrown + json) \<times> world" where
  "getCctvStreamUrl cctvId envs st = getCctvStreamUrl_from cctvId envs 0 st"

text \<open>
  The effects \<open>getCctvStreamUrl\<close> can issue, in order: the request of each attempt, with
  the configuration \<open>api\<close> builds from \<open>{}\<close> and the attempt's timeout, and the pause
  between two attempts.
\<close>

text \<open>The configuration \<open>api\<close> builds from the options \<open>{}\<close> and a timeout in range.\<close>

definition default_config :: "int \<Rightarrow> RequestInit" where
  "default_config t =
     \<lparr>http_method = Absent,
      headers = Value [(''Content-Type'', ''application/json'')],
      signal = Value (TimeoutSignal t),
      credentials = Value ''include'',
      skipCache = False\<rparr>"

definition stream_fetch :: "world \<Rightarrow> string \<Rightarrow> int \<Rightarrow> event" where
  "stream_fetch st cctvId t =
     Fetch (API_BASE_URL (NEXT_PUBLIC_API_URL st) @ ''/cctvs/stream/'' @ cctvId)
       \<lparr>http_method = Absent,
        headers = Value [(''Content-Type'', ''application/json'')],
        signal = Value (TimeoutSignal t),
        credentials = Value ''include'',
        skipCache = False\<rparr>"

definition schedule :: "world \<Rightarrow> string \<Rightarrow> event list" where
  "schedule st cctvId =
     [stream_fetch st cctvId 12000, SetTimeout 750,
      stream_fetch st cctvId 15000, SetTimeout 750,
      stream_fetch st cctvId 20000]"

subsection \<open>The typed getters\<close>

definition getDashboardBundle :: "call_env \<Rightarrow> world \<Rightarrow> (thrown + json) \<times> world" where
  "getDashboardBundle env st =
     (case api ''/dashboard-bundle'' no_options None env st of
        (Inr response, st') \<Rightarrow> (Inr response, st')
      | (Inl error, st') \<Rightarrow> (Inl error, st'))"

definition stats_zero :: json where
  "stats_zero =
     JObj [(''total_buildings'', JNum 0), (''total_rooms'', JNum 0), (''total_cctvs'', JNum 0)]"

definition getStats :: "call_env \<Rightarrow> world \<Rightarrow> (thrown + json) \<times> world" where
  "getStats env st =
     (case api ''/stats'' no_options None env st of
        (Inr response, st') \<Rightarrow> (Inr response, st')
      | (Inl error, st') \<Rightarrow> (Inr stats_zero, st'))"

definition getBuildings :: "call_env \<Rightarrow> world \<Rightarrow> (thrown + json) \<times> world" where
  "getBuildings env st =
     (case api ''/buildings'' no_options None env st of
        (Inr response, st') \<Rightarrow> (Inr response, st')
      | (Inl error, st') \<Rightarrow> (Inr (JArr []), st'))"

definition getBuilding :: "string \<Rightarrow> call_env \<Rightarrow> world \<Rightarrow> (thrown + json) \<times> world" where
  "getBuilding ident env st =
     (case api (''/buildings/'' @ ident) no_options None env st of
        (Inr response, st') \<Rightarrow> (Inr response, st')
      | (Inl error, st') \<Rightarrow> (Inr (JObj []), st'))"

definition getRooms :: "call_env \<Rightarrow> world \<Rightarrow> (thrown + json) \<times> world" where
  "getRooms env st =
     (case api ''/rooms'' no_options None env st of
        (Inr response, st') \<Rightarrow> (Inr response, st')
      | (Inl error, st') \<Rightarrow> (Inr (JArr []), st'))"

definition getRoom :: "string \<Rightarrow> call_env \<Rightarrow> world \<Rightarrow> (thrown + json) \<times> world" where
  "getRoom ident env st =
     (case api (''/rooms/'' @ ident) no_options None env st of
        (Inr response, st') \<Rightarrow> (Inr response, st')
      | (Inl error, st') \<Rightarrow> (Inr (JObj []), st'))"

definition getRoomsByBuilding ::
  "string \<Rightarrow> call_env \<Rightarrow> world \<Rightarrow> (thrown + json) \<times> world" where
  "getRoomsByBuilding buildingId env st =
     (case api (''/rooms/building/'' @ buildingId) no_options None env st of
        (Inr response, st') \<Rightarrow> (Inr response, st')
      | (Inl error, st') \<Rightarrow> (Inr (JArr []), st'))"

definition getCctvs :: "call_env \<Rightarrow> world \<Rightarrow> (thrown + json) \<times> world" where
  "getCctvs env st =
     (case api ''/cctvs'' no_options None env st of
        (Inr response, st') \<Rightarrow> (Inr response, st')
      | (Inl error, st') \<Rightarrow> (Inr (JArr []), st'))"

definition getCctvsByRoom :: "string \<Rightarrow> call_env \<Rightarrow> world \<Rightarrow> (thrown + json) \<times> world" where
  "getCctvsByRoom roomId env st =
     (case api (''/cctvs/room/'' @ roomId) no_options None env st of
        (Inr response, st') \<Rightarrow> (Inr response, st')
      | (Inl error, st') \<Rightarrow> (Inr (JArr []), st'))"

text \<open>
  The query string of \<open>getProductionTrends\<close> and \<open>getUnitPerformance\<close>. An argument is
  appended when it is truthy (neither \<open>undefined\<close> nor the empty string).
  \<open>URLSearchParams.toString()\<close> belongs to the platform: its percent-encoding of a value
  is the parameter \<open>enc\<close>; the two keys consist of characters it leaves unchanged.
\<close>

definition queryParams ::
  "(string \<Rightarrow> string) \<Rightarrow> string option \<Rightarrow> string option \<Rightarrow> string" where
  "queryParams enc startDate endDate =
     (let p1 = (case startDate of
                  None \<Rightarrow> []
                | Some s \<Rightarrow> if s = [] then [] else [''start_date='' @ enc s]);
          p2 = (case endDate of
                  None \<Rightarrow> []
                | Some e \<Rightarrow> if e = [] then [] else [''end_date='' @ enc e])
      in case p1 @ p2 of
           [] \<Rightarrow> []
         | [a] \<Rightarrow> a
         | a # b # rest \<Rightarrow> a @ ''&'' @ b)"

definition with_query :: "string \<Rightarrow> string \<Rightarrow> string" where
  "with_query url q = (if q = [] then url else url @ ''?'' @ q)"

definition getProductionTrends ::
  "(string \<Rightarrow> string) \<Rightarrow> string option \<Rightarrow> string option \<Rightarrow> call_env \<Rightarrow> world \<Rightarrow>
     (thrown + json) \<times> world" where
  "getProductionTrends enc startDate endDate env st =
     (case api (with_query ''/production-trends'' (queryParams enc startDate endDate))
             no_options None env st of
        (Inr response, st') \<Rightarrow> (Inr response, st')
      | (Inl error, st') \<Rightarrow> (Inr (JArr []), st'))"

definition getUnitPerformance ::
  "(string \<Rightarrow> string) \<Rightarrow> string option \<Rightarrow> string option \<Rightarrow> call_env \<Rightarrow> world \<Rightarrow>
     (thrown + json) \<times> world" where
  "getUnitPerformance enc startDate endDate env st =
     (case api (with_query ''/unit-performance'' (queryParams enc startDate endDate))
             no_options None env st of
        (Inr response, st') \<Rightarrow> (Inr response, st')
      | (Inl error, st') \<Rightarrow> (Inr (JArr []), st'))"

definition getContacts :: "call_env \<Rightarrow> world \<Rightarrow> (thrown + json) \<times> world" where
  "getContacts env st =
     (case api ''/contact'' no_options None env st of
        (Inr response, st') \<Rightarrow>
          (Inr (if truthy response then JArr [response] else JArr []), st')
      | (Inl error, st') \<Rightarrow> (Inr (JArr []), st'))"

subsection \<open>Answers of the environment\<close>



subsection \<open>Concrete scenarios\<close>

definition st0 :: world where
  "st0 = \<lparr>NEXT_PUBLIC_API_URL = None, apiCache = Map.empty, trace = []\<rparr>"

definition stats_4 :: json where
  "stats_4 =
     JObj [(''total_buildings'', JNum 4), (''total_rooms'', JNum 9), (''total_cctvs'', JNum 21)]"

text \<open>A state whose cache holds an answer to \<open>GET /stats\<close> stored at time 0.\<close>

definition st_cached :: world where
  "st_cached = \<lparr>NEXT_PUBLIC_API_URL = None,
     apiCache = [''GET:http://127.0.0.1:8000/api/stats'' \<mapsto>
        \<lparr>entry_data = stats_4, timestamp = 0\<rparr>],
     trace = []\<rparr>"

definition out_of_range :: thrown where
  "out_of_range = ErrorObj ''RangeError'' ''The value of delay is out of range.''"

definition answer :: "fetch_outcome \<Rightarrow> call_env" where
  "answer out = \<lparr>now_check = 0, range_error = out_of_range, fetched = out, now_store = 0\<rparr>"

definition late :: "fetch_outcome \<Rightarrow> call_env" where
  "late out =
     \<lparr>now_check = 60000, range_error = out_of_range, fetched = out, now_store = 61000\<rparr>"

definition not_found :: fetch_outcome where
  "not_found = Resolves \<lparr>ok = False, status = 404, statusText = ''Not Found'',
     json_body = Inr \<lparr>success = False, message = ''CCTV not found'', data = JNull\<rparr>\<rparr>"

definition unavailable :: fetch_outcome where
  "unavailable = Resolves \<lparr>ok = False, status = 503, statusText = ''Service Unavailable'',
     json_body = Inr \<lparr>success = False, message = ''Stream unavailable'', data = JNull\<rparr>\<rparr>"

definition timed_out :: fetch_outcome where
  "timed_out = Rejects (ErrorObj ''TimeoutError'' ''The operation was aborted due to timeout'')"

definition aborted :: fetch_outcome where
  "aborted = Rejects (ErrorObj ''AbortError'' ''The operation was aborted.'')"

definition stats_ok :: fetch_outcome where
  "stats_ok = Resolves \<lparr>ok = True, status = 200, statusText = ''OK'',
     json_body = Inr \<lparr>success = True, message = ''ok'', data = stats_4\<rparr>\<rparr>"

definition env_unknown :: "nat \<Rightarrow> call_env" where
  "env_unknown i = answer not_found"

definition env_unavailable :: "nat \<Rightarrow> call_env" where
  "env_unavailable i = answer unavailable"

definition env_timeout :: "nat \<Rightarrow> call_env" where
  "env_timeout i = answer timed_out"

definition after_attempt :: "nat \<Rightarrow> world" where
  "after_attempt n = st0\<lparr>trace := take n (schedule st0 ''7'')\<rparr>"

definition caller_options :: RequestInit where
  "caller_options = no_options\<lparr>signal := Value (CallerSignal 1)\<rparr>"

definition post_options :: RequestInit where
  "post_options = no_options\<lparr>http_method := Value ''POST''\<rparr>"

definition skip_options :: RequestInit where
  "skip_options = no_options\<lparr>skipCache := True\<rparr>"










section \<open>The stream delivery engine\<close>

text \<open>
  The engine (worker supervisor and segment store) is not among the source files, which
  hold its client only. The definitions of this section are modelled from the
  specification's sections 3 to 5.
\<close>

subsection \<open>Transcode Worker Supervisor\<close>

text \<open>
  Modelled from the spec: the Worker of section 3 (the supervisor that owns it is not among
  the source files). A worker is one-to-one with an active source and owns one process
  handle.
\<close>

record worker =
  source_id :: nat
  process :: nat

text \<open>
  Modelled from the spec: the state of the Transcode Worker Supervisor of section 4.1: the
  live workers, the next free process handle, and every process spawned so far with its
  source, newest first.
\<close>

record supervisor =
  workers :: "worker list"
  next_process :: nat
  spawned :: "(nat \<times> nat) list"

text \<open>
  Modelled from the spec: the error taxonomy of section 7 that reaches callers.
\<close>

datatype engine_error = SourceUnknown | SourceUnavailable | Timeout

text \<open>
  Modelled from the spec: after a restart no worker exists (section 6).
\<close>

definition supervisor_init :: supervisor where
  "supervisor_init = \<lparr>workers = [], next_process = 0, spawned = []\<rparr>"

text \<open>
  Modelled from the spec: \<open>ensure_worker(source_id) -> WorkerHandle | Error\<close> of section 4.1.
  If a live worker exists for the source it returns the existing handle without spawning;
  otherwise it spawns one process, and \<open>starts\<close> says whether the process started. By
  section 5 the calls for one source are serialised, so a call is one atomic step.
\<close>

definition ensure_worker ::
  "nat \<Rightarrow> bool \<Rightarrow> supervisor \<Rightarrow> (engine_error + worker) \<times> supervisor" where
  "ensure_worker sid starts sv =
     (case find (\<lambda>w. source_id w = sid) (workers sv) of
        Some w \<Rightarrow> (Inr w, sv)
      | None \<Rightarrow>
          if starts then
            (let w = \<lparr>source_id = sid, process = next_process sv\<rparr>
             in (Inr w,
                 sv\<lparr>workers := w # workers sv,
                     next_process := Suc (next_process sv),
                     spawned := (sid, next_process sv) # spawned sv\<rparr>))
          else (Inl SourceUnavailable, sv))"

text \<open>
  Modelled from the spec: \<open>stop_worker(source_id)\<close> of section 4.1 ends the source's worker.
\<close>

definition stop_worker :: "nat \<Rightarrow> supervisor \<Rightarrow> supervisor" where
  "stop_worker sid sv = sv\<lparr>workers := filter (\<lambda>w. source_id w \<noteq> sid) (workers sv)\<rparr>"

text \<open>
  Modelled from the spec: a clean or error exit of a process transitions its worker out of
  existence (section 4.1).
\<close>

definition process_exit :: "nat \<Rightarrow> supervisor \<Rightarrow> supervisor" where
  "process_exit p sv = sv\<lparr>workers := filter (\<lambda>w. process w \<noteq> p) (workers sv)\<rparr>"

text \<open>
  Modelled from the spec: the events the supervisor serialises (sections 4.1 and 5).
\<close>

datatype supervisor_call = EnsureWorker nat bool | StopWorker nat | ProcessExit nat

text \<open>
  Modelled from the spec: one serialised event.
\<close>

fun supervisor_step :: "supervisor_call \<Rightarrow> supervisor \<Rightarrow> supervisor" where
  "supervisor_step (EnsureWorker sid starts) sv = snd (ensure_worker sid starts sv)"
| "supervisor_step (StopWorker sid) sv = stop_worker sid sv"
| "supervisor_step (ProcessExit p) sv = process_exit p sv"

text \<open>
  Modelled from the spec: concurrent callers are an arbitrary sequence of serialised events.
\<close>

fun supervisor_run :: "supervisor_call list \<Rightarrow> supervisor \<Rightarrow> supervisor" where
  "supervisor_run [] sv = sv"
| "supervisor_run (c # cs) sv = supervisor_run cs (supervisor_step c sv)"

text \<open>
  Modelled from the spec: the live workers of one source.
\<close>

definition live_workers :: "nat \<Rightarrow> supervisor \<Rightarrow> worker list" where
  "live_workers sid sv = filter (\<lambda>w. source_id w = sid) (workers sv)"

text \<open>
  Modelled from the spec: the at-most-one-worker-per-source invariant of section 4.1.
\<close>

definition one_worker_per_source :: "supervisor \<Rightarrow> bool" where
  "one_worker_per_source sv = distinct (map source_id (workers sv))"

text \<open>
  Modelled from the spec: the supervisor after one worker was started for source 1.
\<close>

definition supervisor_one :: supervisor where
  "supervisor_one =
     \<lparr>workers = [\<lparr>source_id = 1, process = 0\<rparr>], next_process = 1, spawned = [(1, 0)]\<rparr>"

subsection \<open>Segment Store\<close>

text \<open>
  Modelled from the spec: the SegmentSet of section 3 and the Segment Store of section 4.4,
  which are not among the sources. Chunks are named by their sequence number: the
  manifest lists the referenced chunks, oldest first; \<open>stored\<close> are the chunks in storage;
  \<open>dropped\<close> are the chunks whose reference was dropped and whose deletion is deferred;
  \<open>deleted\<close> are the chunks deleted from storage.
\<close>

record segment_store =
  manifest :: "nat list"
  stored :: "nat list"
  dropped :: "nat list"
  deleted :: "nat list"
  next_sequence :: nat

text \<open>
  Modelled from the spec: the empty area of a source.
\<close>

definition segment_store_init :: segment_store where
  "segment_store_init =
     \<lparr>manifest = [], stored = [], dropped = [], deleted = [], next_sequence = 0\<rparr>"

text \<open>
  Modelled from the spec: a new segment is written and the manifest is rewritten to the
  sliding window of the most recent \<open>window\<close> segments, the oldest dropped as the newest is
  added (section 4.4). The dropped chunks stay in storage.
\<close>

definition add_segment :: "nat \<Rightarrow> segment_store \<Rightarrow> segment_store" where
  "add_segment window s =
     (let n = next_sequence s;
          listed = manifest s @ [n];
          excess = length listed - window
      in s\<lparr>stored := n # stored s,
           manifest := drop excess listed,
           dropped := dropped s @ take excess listed,
           next_sequence := Suc n\<rparr>)"

text \<open>
  Modelled from the spec: the deferred deletion of the backing data of a dropped segment,
  which runs after the manifest rewrite (section 4.4).
\<close>

definition delete_dropped :: "segment_store \<Rightarrow> segment_store" where
  "delete_dropped s =
     (case dropped s of
        [] \<Rightarrow> s
      | c # cs \<Rightarrow>
          s\<lparr>stored := removeAll c (stored s), deleted := c # deleted s, dropped := cs\<rparr>)"

text \<open>
  Modelled from the spec: on worker stop the entire area of the source is purged
  (section 4.4), the manifest included.
\<close>

definition purge :: "segment_store \<Rightarrow> segment_store" where
  "purge s = s\<lparr>manifest := [], deleted := stored s @ deleted s, stored := [], dropped := []\<rparr>"

text \<open>
  Modelled from the spec: the housekeeping steps of section 4.4.
\<close>

datatype store_step = AddSegment | DeleteDropped | Purge

text \<open>
  Modelled from the spec: one housekeeping step.
\<close>

fun segment_store_step :: "nat \<Rightarrow> store_step \<Rightarrow> segment_store \<Rightarrow> segment_store" where
  "segment_store_step window AddSegment s = add_segment window s"
| "segment_store_step window DeleteDropped s = delete_dropped s"
| "segment_store_step window Purge s = purge s"

text \<open>
  Modelled from the spec: the states of the store are those reached by sequences of steps.
\<close>

fun segment_store_run :: "nat \<Rightarrow> store_step list \<Rightarrow> segment_store \<Rightarrow> segment_store" where
  "segment_store_run window [] s = s"
| "segment_store_run window (c # cs) s = segment_store_run window cs (segment_store_step window c s)"

text \<open>
  Modelled from the spec: the invariant of the SegmentSet (section 3), strengthened to be
  inductive: sequence numbers below \<open>next_sequence\<close> only, and no referenced chunk dropped.
\<close>

definition store_consistent :: "segment_store \<Rightarrow> bool" where
  "store_consistent s =
     (distinct (manifest s) \<and>
      set (manifest s) \<subseteq> set (stored s) \<and>
      set (manifest s) \<inter> set (deleted s) = {} \<and>
      set (manifest s) \<inter> set (dropped s) = {} \<and>
      set (stored s) \<inter> set (deleted s) = {} \<and>
      (\<forall>c \<in> set (stored s) \<union> set (deleted s) \<union> set (dropped s). c < next_sequence s))"

section \<open>Properties of api\<close>

lemma method_of_no_options: "method_of no_options = ''GET''"
  by (simp add: method_of_def no_options_def)

lemma timeout_of_simps [simp]: "timeout_of None = 30000" "timeout_of (Some t) = t"
  by (simp_all add: timeout_of_def)

subsection \<open>The configuration\<close>

lemma make_config_builds:
  "builds_config opts t \<Longrightarrow> \<exists>cfg. make_config opts (timeout_of t) env = Inr cfg"
  by (auto simp: builds_config_def make_config_def AbortSignal_timeout_def Let_def
      split: keyval.splits)

lemma make_config_refuses:
  "\<not> builds_config opts t \<Longrightarrow> make_config opts (timeout_of t) env = Inl (range_error env)"
  by (auto simp: builds_config_def make_config_def AbortSignal_timeout_def Let_def
      split: keyval.splits)

lemma make_config_Inr_builds:
  "make_config opts (timeout_of t) env = Inr cfg \<Longrightarrow> builds_config opts t"
  using make_config_refuses [of opts t env] by auto

text \<open>The signal of the configuration: the spread lets every present key win.\<close>

lemma make_config_signal:
  "make_config opts ms env = Inr cfg \<Longrightarrow>
     signal cfg = (case signal opts of Absent \<Rightarrow> Value (TimeoutSignal ms) | g \<Rightarrow> g)"
  by (auto simp: make_config_def AbortSignal_timeout_def Let_def
      split: keyval.splits sum.splits if_splits)

lemma make_config_no_options:
  "delay_in_range ms \<Longrightarrow> make_config no_options ms env = Inr (default_config ms)"
  by (simp add: make_config_def AbortSignal_timeout_def no_options_def default_config_def)

lemma stream_config:
  "make_config no_options (timeout_of (Some 12000)) env = Inr (default_config 12000)"
  "make_config no_options (timeout_of (Some 15000)) env = Inr (default_config 15000)"
  "make_config no_options (timeout_of (Some 20000)) env = Inr (default_config 20000)"
  by (simp_all add: make_config_no_options delay_in_range_def)

subsection \<open>Requests and results\<close>

text \<open>A call that throws after its configuration was built has issued exactly one
  request and changed nothing else.\<close>

lemma api_Inl:
  assumes "api ep opts t env st = (Inl e, st')"
    and "make_config opts (timeout_of t) env = Inr cfg"
  shows "st' = st\<lparr>trace := trace st @
           [Fetch (API_BASE_URL (NEXT_PUBLIC_API_URL st) @ ep) cfg]\<rparr>"
  using assms
  by (auto simp: api_def Let_def split: option.splits sum.splits prod.splits)

lemma api_trace:
  "trace (snd (api ep opts t env st)) = trace st \<or>
   (\<exists>cfg. make_config opts (timeout_of t) env = Inr cfg \<and>
      trace (snd (api ep opts t env st)) = trace st @
           [Fetch (API_BASE_URL (NEXT_PUBLIC_API_URL st) @ ep) cfg])"
  by (auto simp: api_def Let_def split: option.splits sum.splits prod.splits)

lemma api_Inl_GET:
  assumes "api ep opts t env st = (Inl e, st')" "method_of opts = ''GET''"
    and "make_config opts (timeout_of t) env = Inr cfg"
  shows "apiCache st (cacheKey_of st ep opts) = None"
  using assms
  by (auto simp: api_def Let_def api_catch_def api_try_def
      split: option.splits sum.splits prod.splits if_splits fetch_outcome.splits)

text \<open>A call that the cache does not answer and whose configuration is built issues
  exactly one request.\<close>

lemma api_requests:
  assumes "cache_check st ep opts (now_check env) = None"
    and "make_config opts (timeout_of t) env = Inr cfg"
  shows "trace (snd (api ep opts t env st)) = trace st @
           [Fetch (API_BASE_URL (NEXT_PUBLIC_API_URL st) @ ep) cfg]"
  using assms
  by (auto simp: api_def Let_def split: option.splits sum.splits prod.splits)

lemma api_fetches:
  assumes "apiCache st (cacheKey_of st ep opts) = None"
    and "make_config opts (timeout_of t) env = Inr cfg"
  shows "trace (snd (api ep opts t env st)) = trace st @
           [Fetch (API_BASE_URL (NEXT_PUBLIC_API_URL st) @ ep) cfg]"
  using assms by (intro api_requests) (simp_all add: cache_check_def)









subsection \<open>Evaluation of the concrete scenarios\<close>

lemma string_of_nat_404: "string_of_nat 404 = ''404''"
  by (simp add: string_of_nat.simps digit_def)

lemma string_of_nat_503: "string_of_nat 503 = ''503''"
  by (simp add: string_of_nat.simps digit_def)

lemmas eval_defs = api_def api_try_def api_catch_def cache_check_def cacheKey_of_def
  method_of_def API_BASE_URL_def make_config_def AbortSignal_timeout_def delay_in_range_def
  default_config_def no_options_def st0_def answer_def out_of_range_def
  not_found_def unavailable_def timed_out_def env_unknown_def env_unavailable_def
  env_timeout_def stream_endpoint_def delay_def Let_def timeout_message_def
  empty_stream_def CACHE_TTL_def st_cached_def aborted_def late_def stats_ok_def
  post_options_def caller_options_def skip_options_def string_of_nat_404 string_of_nat_503

section \<open>Properties of getCctvStreamUrl\<close>

lemma stream_fetch_eq:
  "Fetch (API_BASE_URL (NEXT_PUBLIC_API_URL st) @ stream_endpoint cctvId)
      (default_config t) = stream_fetch st cctvId t"
  by (simp add: stream_fetch_def default_config_def stream_endpoint_def)

lemma from_3: "getCctvStreamUrl_from cctvId envs 3 st = (Inr empty_stream, st)"
  by (subst getCctvStreamUrl_from.simps) (simp add: attempts_def)

lemma from_2: "getCctvStreamUrl_from cctvId envs 2 st =
  (case api (stream_endpoint cctvId) no_options (Some 20000) (envs 2) st of
     (Inr response, s3) \<Rightarrow> (Inr response, s3)
   | (Inl e3, s3) \<Rightarrow> (Inr empty_stream, s3))"
proof (cases "api (stream_endpoint cctvId) no_options (Some 20000) (envs 2) st")
  case (Pair r s)
  then show ?thesis
    by (subst getCctvStreamUrl_from.simps) (cases r; simp add: attempts_def from_3)
qed

lemma from_1: "getCctvStreamUrl_from cctvId envs 1 st =
  (case api (stream_endpoint cctvId) no_options (Some 15000) (envs 1) st of
     (Inr response, s2) \<Rightarrow> (Inr response, s2)
   | (Inl e2, s2) \<Rightarrow> getCctvStreamUrl_from cctvId envs 2 (delay 750 s2))"
proof (cases "api (stream_endpoint cctvId) no_options (Some 15000) (envs 1) st")
  case (Pair r s)
  then show ?thesis
    by (subst getCctvStreamUrl_from.simps) (cases r; simp add: attempts_def numeral_2_eq_2)
qed

lemma from_0: "getCctvStreamUrl_from cctvId envs 0 st =
  (case api (stream_endpoint cctvId) no_options (Some 12000) (envs 0) st of
     (Inr response, s1) \<Rightarrow> (Inr response, s1)
   | (Inl e1, s1) \<Rightarrow> getCctvStreamUrl_from cctvId envs 1 (delay 750 s1))"
proof (cases "api (stream_endpoint cctvId) no_options (Some 12000) (envs 0) st")
  case (Pair r s)
  then show ?thesis
    by (subst getCctvStreamUrl_from.simps) (cases r; simp add: attempts_def)
qed

text \<open>The loop, unrolled: three iterations at most, each entered only after a throw.\<close>

lemma unroll: "getCctvStreamUrl cctvId envs st =
  (case api (stream_endpoint cctvId) no_options (Some 12000) (envs 0) st of
     (Inr response, s1) \<Rightarrow> (Inr response, s1)
   | (Inl e1, s1) \<Rightarrow>
      (case api (stream_endpoint cctvId) no_options (Some 15000) (envs 1) (delay 750 s1) of
         (Inr response, s2) \<Rightarrow> (Inr response, s2)
       | (Inl e2, s2) \<Rightarrow>
          (case api (stream_endpoint cctvId) no_options (Some 20000) (envs 2) (delay 750 s2) of
             (Inr response, s3) \<Rightarrow> (Inr response, s3)
           | (Inl e3, s3) \<Rightarrow> (Inr empty_stream, s3))))"
  unfolding getCctvStreamUrl_def by (simp only: from_0 from_1 from_2)

text \<open>
  What a call adds to the trace is an initial part of the schedule that ends with a
  request: nothing (the first attempt was answered from the cache), or one, two or
  three requests with a pause of 750 ms before the second and the third.
\<close>

lemma stream_trace_cases:
  "\<exists>n. n \<in> {0, 1, 3, 5} \<and>
     trace (snd (getCctvStreamUrl cctvId envs st)) = trace st @ take n (schedule st cctvId)"
proof -
  let ?ep = "stream_endpoint cctvId"
  obtain r1 s1 where a1: "api ?ep no_options (Some 12000) (envs 0) st = (r1, s1)"
    by (cases "api ?ep no_options (Some 12000) (envs 0) st")
  show ?thesis
  proof (cases r1)
    case (Inr d)
    with a1 have res: "getCctvStreamUrl cctvId envs st = (Inr d, s1)"
      by (simp add: unroll)
    from api_trace [of ?ep no_options "Some 12000" "envs 0" st] a1
    have "trace s1 = trace st \<or> trace s1 = trace st @ [stream_fetch st cctvId 12000]"
      by (auto simp: make_config_no_options delay_in_range_def stream_fetch_eq)
    then show ?thesis
    proof
      assume "trace s1 = trace st"
      with res have "trace (snd (getCctvStreamUrl cctvId envs st)) =
          trace st @ take 0 (schedule st cctvId)"
        by simp
      then show ?thesis by blast
    next
      assume "trace s1 = trace st @ [stream_fetch st cctvId 12000]"
      with res have "trace (snd (getCctvStreamUrl cctvId envs st)) =
          trace st @ take 1 (schedule st cctvId)"
        by (simp add: schedule_def)
      then show ?thesis by blast
    qed
  next
    case (Inl e1)
    with a1 have f1: "api ?ep no_options (Some 12000) (envs 0) st = (Inl e1, s1)" by simp
    have s1: "s1 = st\<lparr>trace := trace st @ [stream_fetch st cctvId 12000]\<rparr>"
      using api_Inl [OF f1 stream_config(1)] by (simp add: stream_fetch_eq)
    have c0: "apiCache st (cacheKey_of st ?ep no_options) = None"
      using api_Inl_GET [OF f1 method_of_no_options stream_config(1)] .
    let ?s1' = "delay 750 s1"
    have c1: "apiCache ?s1' (cacheKey_of ?s1' ?ep no_options) = None"
      using c0 by (simp add: s1 delay_def cacheKey_of_def)
    obtain r2 s2 where a2: "api ?ep no_options (Some 15000) (envs 1) ?s1' = (r2, s2)"
      by (cases "api ?ep no_options (Some 15000) (envs 1) ?s1'")
    have t2: "trace s2 = trace st @ take 3 (schedule st cctvId)"
      using api_fetches [where env = "envs 1", OF c1 stream_config(2)] a2
      by (simp add: stream_fetch_eq) (simp add: s1 delay_def schedule_def stream_fetch_def)
    show ?thesis
    proof (cases r2)
      case (Inr d)
      with a2 f1 have "getCctvStreamUrl cctvId envs st = (Inr d, s2)"
        by (simp add: unroll)
      with t2 have "trace (snd (getCctvStreamUrl cctvId envs st)) =
          trace st @ take 3 (schedule st cctvId)"
        by simp
      then show ?thesis by blast
    next
      case (Inl e2)
      with a2 have f2: "api ?ep no_options (Some 15000) (envs 1) ?s1' = (Inl e2, s2)" by simp
      have s2: "s2 = ?s1'\<lparr>trace := trace ?s1' @ [stream_fetch ?s1' cctvId 15000]\<rparr>"
        using api_Inl [OF f2 stream_config(2)] by (simp add: stream_fetch_eq)
      let ?s2' = "delay 750 s2"
      have fr2: "apiCache s2 = apiCache st" "NEXT_PUBLIC_API_URL s2 = NEXT_PUBLIC_API_URL st"
        by (subst s2, simp add: s1 delay_def)+
      then have c2: "apiCache ?s2' (cacheKey_of ?s2' ?ep no_options) = None"
        using c0 by (simp add: delay_def cacheKey_of_def)
      obtain r3 s3 where a3: "api ?ep no_options (Some 20000) (envs 2) ?s2' = (r3, s3)"
        by (cases "api ?ep no_options (Some 20000) (envs 2) ?s2'")
      have t3: "trace s3 = trace st @ take 5 (schedule st cctvId)"
        using api_fetches [where env = "envs 2", OF c2 stream_config(3)] a3 t2
        by (simp add: stream_fetch_eq) (simp add: delay_def schedule_def stream_fetch_def fr2)
      have "snd (getCctvStreamUrl cctvId envs st) = s3"
        using f1 f2 a3 by (cases r3) (simp_all add: unroll)
      with t3 have "trace (snd (getCctvStreamUrl cctvId envs st)) =
          trace st @ take 5 (schedule st cctvId)"
        by simp
      then show ?thesis by blast
    qed
  qed
qed

text \<open>
  C1. For every camera id, \<open>getCctvStreamUrl\<close> makes at most three attempts, with the
  timeouts 12000 ms, 15000 ms and 20000 ms in this order and a pause of 750 ms between
  two consecutive attempts, and it returns the data of the first attempt that succeeds
  without a further attempt: the requests and pauses it issues are the first 0, 1, 3 or
  5 entries of the schedule, and its result and final state are those of the first call
  of \<open>api\<close> that returns.
\<close>

theorem getCctvStreamUrl_retry_schedule:
  "(\<exists>n. n \<in> {0, 1, 3, 5} \<and>
      trace (snd (getCctvStreamUrl cctvId envs st)) = trace st @ take n (schedule st cctvId)) \<and>
   getCctvStreamUrl cctvId envs st =
     (case api (stream_endpoint cctvId) no_options (Some 12000) (envs 0) st of
        (Inr response, s1) \<Rightarrow> (Inr response, s1)
      | (Inl e1, s1) \<Rightarrow>
         (case api (stream_endpoint cctvId) no_options (Some 15000) (envs 1) (delay 750 s1) of
            (Inr response, s2) \<Rightarrow> (Inr response, s2)
          | (Inl e2, s2) \<Rightarrow>
             (case api (stream_endpoint cctvId) no_options (Some 20000) (envs 2)
                     (delay 750 s2) of
                (Inr response, s3) \<Rightarrow> (Inr response, s3)
              | (Inl e3, s3) \<Rightarrow> (Inr empty_stream, s3))))"
  using stream_trace_cases [of cctvId envs st] unroll [of cctvId envs st] by blast

subsection \<open>The three attempts against a failing backend\<close>

lemma unknown_1:
  "api (stream_endpoint ''7'') no_options (Some 12000) (env_unknown 0) st0 =
    (Inl (ErrorObj ''Error'' ''API request failed: 404 Not Found''), after_attempt 1)"
  by (simp add: eval_defs after_attempt_def schedule_def stream_fetch_def)

lemma unknown_2:
  "api (stream_endpoint ''7'') no_options (Some 15000) (env_unknown 1)
      (delay 750 (after_attempt 1)) =
    (Inl (ErrorObj ''Error'' ''API request failed: 404 Not Found''), after_attempt 3)"
  by (simp add: eval_defs after_attempt_def schedule_def stream_fetch_def)

lemma unknown_3:
  "api (stream_endpoint ''7'') no_options (Some 20000) (env_unknown 2)
      (delay 750 (after_attempt 3)) =
    (Inl (ErrorObj ''Error'' ''API request failed: 404 Not Found''), after_attempt 5)"
  by (simp add: eval_defs after_attempt_def schedule_def stream_fetch_def)

lemma timeout_1:
  "api (stream_endpoint ''7'') no_options (Some 12000) (env_timeout 0) st0 =
    (Inl (ErrorObj ''Error'' timeout_message), after_attempt 1)"
  by (simp add: eval_defs after_attempt_def schedule_def stream_fetch_def)

lemma timeout_2:
  "api (stream_endpoint ''7'') no_options (Some 15000) (env_timeout 1)
      (delay 750 (after_attempt 1)) =
    (Inl (ErrorObj ''Error'' timeout_message), after_attempt 3)"
  by (simp add: eval_defs after_attempt_def schedule_def stream_fetch_def)

text \<open>
  C2, as stated: when playback resolution fails, the caller of \<open>getCctvStreamUrl\<close> can
  tell an unknown source, an unavailable one and a timeout apart. It cannot: \<open>api\<close>
  throws three different errors for a 404, a 503 and an aborted request, and
  \<open>getCctvStreamUrl\<close> returns the same \<open>{ stream_url: '' }\<close> for all three.
\<close>

theorem getCctvStreamUrl_failures_indistinguishable:
  "fst (api (stream_endpoint ''7'') no_options (Some 12000) (env_unknown 0) st0)
     = Inl (ErrorObj ''Error'' ''API request failed: 404 Not Found'') \<and>
   fst (api (stream_endpoint ''7'') no_options (Some 12000) (env_unavailable 0) st0)
     = Inl (ErrorObj ''Error'' ''API request failed: 503 Service Unavailable'') \<and>
   fst (api (stream_endpoint ''7'') no_options (Some 12000) (env_timeout 0) st0)
     = Inl (ErrorObj ''Error'' timeout_message) \<and>
   fst (getCctvStreamUrl ''7'' env_unknown st0) = Inr empty_stream \<and>
   fst (getCctvStreamUrl ''7'' env_unavailable st0) = Inr empty_stream \<and>
   fst (getCctvStreamUrl ''7'' env_timeout st0) = Inr empty_stream"
  by (simp add: unroll eval_defs)

text \<open>
  C2, amended: when all three attempts throw, whatever the three errors are,
  \<open>getCctvStreamUrl\<close> returns \<open>{ stream_url: '' }\<close> and throws nothing; the cause of the
  failure does not reach its caller.
\<close>

theorem getCctvStreamUrl_swallows_failures:
  assumes "api (stream_endpoint cctvId) no_options (Some 12000) (envs 0) st = (Inl e1, s1)"
    and "api (stream_endpoint cctvId) no_options (Some 15000) (envs 1) (delay 750 s1) =
           (Inl e2, s2)"
    and "api (stream_endpoint cctvId) no_options (Some 20000) (envs 2) (delay 750 s2) =
           (Inl e3, s3)"
  shows "getCctvStreamUrl cctvId envs st = (Inr empty_stream, s3)"
  using assms by (simp add: unroll)

theorem getCctvStreamUrl_swallows_failures_witness:
  "getCctvStreamUrl ''7'' env_unknown st0 = (Inr empty_stream, after_attempt 5)"
  by (rule getCctvStreamUrl_swallows_failures
      [where envs = env_unknown, OF unknown_1 unknown_2 unknown_3])

text \<open>
  C5, as stated: an unknown-source failure, which is not retryable, triggers no further
  attempt. It does: against a backend that answers 404 every time, all three requests
  are made.
\<close>

theorem getCctvStreamUrl_retries_unknown_source:
  "fst (api (stream_endpoint ''7'') no_options (Some 12000) (env_unknown 0) st0)
     = Inl (ErrorObj ''Error'' ''API request failed: 404 Not Found'') \<and>
   trace (snd (getCctvStreamUrl ''7'' env_unknown st0)) =
     [stream_fetch st0 ''7'' 12000, SetTimeout 750,
      stream_fetch st0 ''7'' 15000, SetTimeout 750,
      stream_fetch st0 ''7'' 20000]"
  by (simp add: unroll eval_defs stream_fetch_def)

text \<open>
  C5, amended: a further attempt follows every attempt that throws, except the last,
  whatever was thrown. After a first attempt that throws any \<open>e1\<close>, the second request is
  made after the pause; its success is returned, and if it throws as well the third
  request is made.
\<close>

theorem getCctvStreamUrl_retries_any_failure:
  assumes "api (stream_endpoint cctvId) no_options (Some 12000) (envs 0) st = (Inl e1, s1)"
  shows "\<exists>r2 s2.
     api (stream_endpoint cctvId) no_options (Some 15000) (envs 1) (delay 750 s1) = (r2, s2) \<and>
     trace s2 = trace st @ take 3 (schedule st cctvId) \<and>
     (case r2 of
        Inr response \<Rightarrow> getCctvStreamUrl cctvId envs st = (Inr response, s2)
      | Inl e2 \<Rightarrow>
          trace (snd (getCctvStreamUrl cctvId envs st)) = trace st @ schedule st cctvId)"
proof -
  let ?ep = "stream_endpoint cctvId"
  have s1: "s1 = st\<lparr>trace := trace st @ [stream_fetch st cctvId 12000]\<rparr>"
    using api_Inl [OF assms stream_config(1)] by (simp add: stream_fetch_eq)
  have c0: "apiCache st (cacheKey_of st ?ep no_options) = None"
    using api_Inl_GET [OF assms method_of_no_options stream_config(1)] .
  let ?s1' = "delay 750 s1"
  have c1: "apiCache ?s1' (cacheKey_of ?s1' ?ep no_options) = None"
    using c0 by (simp add: s1 delay_def cacheKey_of_def)
  obtain r2 s2 where a2: "api ?ep no_options (Some 15000) (envs 1) ?s1' = (r2, s2)"
    by (cases "api ?ep no_options (Some 15000) (envs 1) ?s1'")
  have t2: "trace s2 = trace st @ take 3 (schedule st cctvId)"
    using api_fetches [where env = "envs 1", OF c1 stream_config(2)] a2
    by (simp add: stream_fetch_eq) (simp add: s1 delay_def schedule_def stream_fetch_def)
  have "case r2 of
        Inr response \<Rightarrow> getCctvStreamUrl cctvId envs st = (Inr response, s2)
      | Inl e2 \<Rightarrow>
          trace (snd (getCctvStreamUrl cctvId envs st)) = trace st @ schedule st cctvId"
  proof (cases r2)
    case (Inr d)
    with a2 assms show ?thesis by (simp add: unroll)
  next
    case (Inl e2)
    with a2 have f2: "api ?ep no_options (Some 15000) (envs 1) ?s1' = (Inl e2, s2)" by simp
    have s2: "s2 = ?s1'\<lparr>trace := trace ?s1' @ [stream_fetch ?s1' cctvId 15000]\<rparr>"
      using api_Inl [OF f2 stream_config(2)] by (simp add: stream_fetch_eq)
    let ?s2' = "delay 750 s2"
    have fr2: "apiCache s2 = apiCache st" "NEXT_PUBLIC_API_URL s2 = NEXT_PUBLIC_API_URL st"
      by (subst s2, simp add: s1 delay_def)+
    then have c2: "apiCache ?s2' (cacheKey_of ?s2' ?ep no_options) = None"
      using c0 by (simp add: delay_def cacheKey_of_def)
    obtain r3 s3 where a3: "api ?ep no_options (Some 20000) (envs 2) ?s2' = (r3, s3)"
      by (cases "api ?ep no_options (Some 20000) (envs 2) ?s2'")
    have t3: "trace s3 = trace st @ schedule st cctvId"
      using api_fetches [where env = "envs 2", OF c2 stream_config(3)] a3 t2
      by (simp add: stream_fetch_eq) (simp add: delay_def schedule_def stream_fetch_def fr2)
    have "snd (getCctvStreamUrl cctvId envs st) = s3"
      using assms f2 a3 by (cases r3) (simp_all add: unroll)
    with t3 Inl show ?thesis by simp
  qed
  with a2 t2 show ?thesis by blast
qed

theorem getCctvStreamUrl_retries_any_failure_witness:
  "trace (snd (getCctvStreamUrl ''7'' env_timeout st0)) = schedule st0 ''7''"
proof -
  from getCctvStreamUrl_retries_any_failure [where envs = env_timeout, OF timeout_1]
  obtain r2 s2 where
    a: "api (stream_endpoint ''7'') no_options (Some 15000) (env_timeout 1)
          (delay 750 (after_attempt 1)) = (r2, s2)" and
    b: "case r2 of
          Inr response \<Rightarrow> getCctvStreamUrl ''7'' env_timeout st0 = (Inr response, s2)
        | Inl e2 \<Rightarrow>
            trace (snd (getCctvStreamUrl ''7'' env_timeout st0)) =
              trace st0 @ schedule st0 ''7''"
    by blast
  from a timeout_2 have "r2 = Inl (ErrorObj ''Error'' timeout_message)" by simp
  with b show ?thesis by (simp add: st0_def)
qed

section \<open>Deadlines and timeouts of api\<close>

text \<open>
  C3, as stated: whatever options the caller passes, \<open>fetch\<close> is given an abort signal
  that fires after \<open>timeoutMs\<close>. It is not when the options carry a signal: with the
  caller's signal and \<open>timeoutMs = 1000\<close> the request is made with the caller's signal,
  and no timeout is attached to it.
\<close>

theorem api_caller_signal_replaces_timeout:
  "trace (snd (api ''/stats'' caller_options (Some 1000) (answer timed_out) st0)) =
     [Fetch ''http://127.0.0.1:8000/api/stats''
        \<lparr>http_method = Absent,
         headers = Value [(''Content-Type'', ''application/json'')],
         signal = Value (CallerSignal 1),
         credentials = Value ''include'',
         skipCache = False\<rparr>]"
  by (simp add: eval_defs)

text \<open>
  C3, amended. The statement is about the calls whose options have no \<open>signal\<close> key, with
  a \<open>timeoutMs\<close> that is an integer from 0 to 4294967295 (30000 when the caller passes
  none), and about the calls whose options hold a signal under that key, with any
  \<open>timeoutMs\<close>; a \<open>signal\<close> key that holds \<open>null\<close> or \<open>undefined\<close> is left aside. Such a call
  is answered from a fresh cache entry without a request, or it makes exactly one
  request, and the signal given to \<open>fetch\<close> is
  \<open>options.signal ?? AbortSignal.timeout(timeoutMs)\<close>: the caller's signal when the
  options hold one, with no timeout attached, and the timeout signal of \<open>timeoutMs\<close>
  otherwise.
\<close>

theorem api_signal:
  assumes "(signal opts = Absent \<and> delay_in_range (timeout_of t)) \<or> signal opts = Value s"
  shows "case cache_check st ep opts (now_check env) of
           Some d \<Rightarrow> api ep opts t env st = (Inr d, st)
         | None \<Rightarrow>
             (\<exists>cfg. trace (snd (api ep opts t env st)) =
                 trace st @ [Fetch (API_BASE_URL (NEXT_PUBLIC_API_URL st) @ ep) cfg] \<and>
               signal cfg =
                 Value (case signal opts of
                          Value g \<Rightarrow> g
                        | _ \<Rightarrow> TimeoutSignal (timeout_of t)))"
proof (cases "cache_check st ep opts (now_check env)")
  case (Some d)
  then show ?thesis by (simp add: api_def Let_def)
next
  case None
  from assms have "builds_config opts t"
    by (auto simp: builds_config_def)
  then obtain cfg where cfg: "make_config opts (timeout_of t) env = Inr cfg"
    using make_config_builds by blast
  have "signal cfg =
      Value (case signal opts of Value g \<Rightarrow> g | _ \<Rightarrow> TimeoutSignal (timeout_of t))"
    using assms make_config_signal [OF cfg] by auto
  with api_requests [OF None cfg] None show ?thesis by auto
qed

theorem api_signal_witness:
  "\<exists>cfg. trace (snd (api ''/stats'' no_options None (answer timed_out) st0)) =
       [Fetch ''http://127.0.0.1:8000/api/stats'' cfg] \<and>
     signal cfg = Value (TimeoutSignal 30000)"
proof -
  have h: "(signal no_options = Absent \<and> delay_in_range (timeout_of None)) \<or>
      signal no_options = Value (CallerSignal 0)"
    by (simp add: no_options_def delay_in_range_def)
  have c: "cache_check st0 ''/stats'' no_options (now_check (answer timed_out)) = None"
    by (simp add: cache_check_def st0_def)
  from api_signal [where st = st0 and ep = "''/stats''" and env = "answer timed_out", OF h] c
  show ?thesis
    by (simp add: no_options_def st0_def API_BASE_URL_def)
qed

text \<open>
  C4, as stated: whenever the wait exceeds the timeout, \<open>api\<close> throws the timeout error.
  It does not for a \<open>GET\<close> whose key has a cache entry: the aborted request is answered
  with the stale data, here an entry stored 60 seconds earlier.
\<close>

theorem api_timeout_answered_from_stale_cache:
  "api ''/stats'' no_options (Some 1000) (late aborted) st_cached =
     (Inr stats_4,
      st_cached\<lparr>trace := [Fetch ''http://127.0.0.1:8000/api/stats''
        \<lparr>http_method = Absent,
         headers = Value [(''Content-Type'', ''application/json'')],
         signal = Value (TimeoutSignal 1000),
         credentials = Value ''include'',
         skipCache = False\<rparr>]\<rparr>)"
  by (simp add: eval_defs)

text \<open>
  C4, amended: when the request of a call is made (line 37 has thrown nothing) and
  \<open>fetch\<close> rejects with an \<open>Error\<close> whose name is \<open>AbortError\<close> or whose message contains
  \<open>timeout\<close>, \<open>api\<close> throws the error \<open>API request timeout: ...\<close>, unless the request is a
  \<open>GET\<close> with a cache entry for its key: then \<open>api\<close> returns the data of the entry.
\<close>

theorem api_timeout_error:
  assumes "fetched env = Rejects (ErrorObj nm msg)"
    and "nm = ''AbortError'' \<or> str_includes msg ''timeout''"
    and "builds_config opts t"
  shows "case (if method_of opts = ''GET'' then apiCache st (cacheKey_of st ep opts)
               else None) of
           None \<Rightarrow> fst (api ep opts t env st) = Inl (ErrorObj ''Error'' timeout_message)
         | Some cached \<Rightarrow> fst (api ep opts t env st) = Inr (entry_data cached)"
proof -
  let ?key = "cacheKey_of st ep opts"
  let ?entry = "if method_of opts = ''GET'' then apiCache st ?key else None"
  obtain cfg where cfg: "make_config opts (timeout_of t) env = Inr cfg"
    using assms(3) make_config_builds by blast
  have tr: "api_try (method_of opts) ?key env (apiCache st) = Inl (ErrorObj nm msg)"
    using assms(1) by (simp add: api_try_def)
  show ?thesis
  proof (cases ?entry)
    case None
    then have "cache_check st ep opts (now_check env) = None"
      by (simp add: cache_check_def split: if_splits)
    moreover have "api_catch (method_of opts) ?key (apiCache st) (ErrorObj nm msg) =
        Inl (ErrorObj ''Error'' timeout_message)"
      using assms(2) None by (simp add: api_catch_def)
    ultimately have "fst (api ep opts t env st) = Inl (ErrorObj ''Error'' timeout_message)"
      using cfg tr by (simp add: api_def Let_def)
    with None show ?thesis by simp
  next
    case (Some cached)
    then have g: "method_of opts = ''GET''" "apiCache st ?key = Some cached"
      by (simp_all split: if_splits)
    have "api_catch (method_of opts) ?key (apiCache st) (ErrorObj nm msg) =
        Inr (entry_data cached)"
      using g by (simp add: api_catch_def)
    then have "fst (api ep opts t env st) = Inr (entry_data cached)"
      using cfg tr g
      by (auto simp: api_def Let_def cache_check_def split: option.splits if_splits)
    with Some show ?thesis by simp
  qed
qed

theorem api_timeout_error_witness:
  "fst (api ''/stats'' no_options (Some 1000) (late aborted) st0) =
     Inl (ErrorObj ''Error'' timeout_message)"
proof -
  have 1: "fetched (late aborted) = Rejects (ErrorObj ''AbortError'' ''The operation was aborted.'')"
    by (simp add: late_def aborted_def)
  have 2: "''AbortError'' = ''AbortError'' \<or> str_includes ''The operation was aborted.'' ''timeout''"
    by simp
  have 3: "builds_config no_options (Some 1000)"
    by (simp add: builds_config_def no_options_def delay_in_range_def)
  have 4: "(if method_of no_options = ''GET''
         then apiCache st0 (cacheKey_of st0 ''/stats'' no_options) else None) = None"
    by (simp add: st0_def)
  from api_timeout_error [where st = st0 and ep = "''/stats''", OF 1 2 3] 4
  show ?thesis by simp
qed

section \<open>The cache of api\<close>







section \<open>The typed getters\<close>

text \<open>
  C10. The typed getters never throw: \<open>getStats\<close>, \<open>getBuildings\<close>, \<open>getRooms\<close>,
  \<open>getCctvs\<close>, \<open>getCctvsByRoom\<close>, \<open>getProductionTrends\<close>, \<open>getUnitPerformance\<close> and
  \<open>getContacts\<close> always return a value, and for every error thrown by their call of
  \<open>api\<close> that value is the all-zero statistics or the empty array. \<open>getBuilding\<close>,
  \<open>getRoom\<close>, \<open>getRoomsByBuilding\<close> and \<open>getCctvStreamUrl\<close> always return a value as
  well. Only \<open>getDashboardBundle\<close> throws again what \<open>api\<close> threw.
\<close>

theorem getters_swallow_errors:
  "((\<exists>v. fst (getStats env st) = Inr v) \<and>
    (fst (api ''/stats'' no_options None env st) = Inl e \<longrightarrow>
       fst (getStats env st) = Inr stats_zero)) \<and>
   ((\<exists>v. fst (getBuildings env st) = Inr v) \<and>
    (fst (api ''/buildings'' no_options None env st) = Inl e \<longrightarrow>
       fst (getBuildings env st) = Inr (JArr []))) \<and>
   ((\<exists>v. fst (getRooms env st) = Inr v) \<and>
    (fst (api ''/rooms'' no_options None env st) = Inl e \<longrightarrow>
       fst (getRooms env st) = Inr (JArr []))) \<and>
   ((\<exists>v. fst (getCctvs env st) = Inr v) \<and>
    (fst (api ''/cctvs'' no_options None env st) = Inl e \<longrightarrow>
       fst (getCctvs env st) = Inr (JArr []))) \<and>
   ((\<exists>v. fst (getCctvsByRoom roomId env st) = Inr v) \<and>
    (fst (api (''/cctvs/room/'' @ roomId) no_options None env st) = Inl e \<longrightarrow>
       fst (getCctvsByRoom roomId env st) = Inr (JArr []))) \<and>
   ((\<exists>v. fst (getProductionTrends enc startDate endDate env st) = Inr v) \<and>
    (fst (api (with_query ''/production-trends'' (queryParams enc startDate endDate))
           no_options None env st) = Inl e \<longrightarrow>
       fst (getProductionTrends enc startDate endDate env st) = Inr (JArr []))) \<and>
   ((\<exists>v. fst (getUnitPerformance enc startDate endDate env st) = Inr v) \<and>
    (fst (api (with_query ''/unit-performance'' (queryParams enc startDate endDate))
           no_options None env st) = Inl e \<longrightarrow>
       fst (getUnitPerformance enc startDate endDate env st) = Inr (JArr []))) \<and>
   ((\<exists>v. fst (getContacts env st) = Inr v) \<and>
    (fst (api ''/contact'' no_options None env st) = Inl e \<longrightarrow>
       fst (getContacts env st) = Inr (JArr []))) \<and>
   (fst (api ''/dashboard-bundle'' no_options None env st) = Inl e \<longrightarrow>
      fst (getDashboardBundle env st) = Inl e) \<and>
   (\<exists>v. fst (getBuilding ident env st) = Inr v) \<and>
   (\<exists>v. fst (getRoom ident env st) = Inr v) \<and>
   (\<exists>v. fst (getRoomsByBuilding ident env st) = Inr v) \<and>
   (\<exists>v. fst (getCctvStreamUrl ident envs st) = Inr v)"
proof (intro conjI impI)
  show "\<exists>v. fst (getCctvStreamUrl ident envs st) = Inr v"
    by (simp add: unroll split: prod.splits sum.splits)
qed (auto simp: getStats_def getBuildings_def getRooms_def getCctvs_def getCctvsByRoom_def
    getProductionTrends_def getUnitPerformance_def getContacts_def getDashboardBundle_def
    getBuilding_def getRoom_def getRoomsByBuilding_def
    split: prod.splits sum.splits)

lemma api_not_found:
  "fst (api ep no_options None (answer not_found) st0) =
     Inl (ErrorObj ''Error'' ''API request failed: 404 Not Found'')"
  by (simp add: eval_defs)

theorem getters_swallow_errors_witness:
  "fst (getStats (answer not_found) st0) = Inr stats_zero \<and>
   fst (getBuildings (answer not_found) st0) = Inr (JArr []) \<and>
   fst (getRooms (answer not_found) st0) = Inr (JArr []) \<and>
   fst (getCctvs (answer not_found) st0) = Inr (JArr []) \<and>
   fst (getCctvsByRoom ''3'' (answer not_found) st0) = Inr (JArr []) \<and>
   fst (getProductionTrends id (Some ''2024-01-01'') None (answer not_found) st0) =
     Inr (JArr []) \<and>
   fst (getUnitPerformance id None (Some ''2024-01-31'') (answer not_found) st0) =
     Inr (JArr []) \<and>
   fst (getContacts (answer not_found) st0) = Inr (JArr []) \<and>
   fst (getDashboardBundle (answer not_found) st0) =
     Inl (ErrorObj ''Error'' ''API request failed: 404 Not Found'')"
  using getters_swallow_errors [where env = "answer not_found" and st = st0
      and e = "ErrorObj ''Error'' ''API request failed: 404 Not Found''"
      and roomId = "''3''" and enc = id and startDate = "Some ''2024-01-01''"
      and endDate = None]
    getters_swallow_errors [where env = "answer not_found" and st = st0
      and e = "ErrorObj ''Error'' ''API request failed: 404 Not Found''"
      and enc = id and startDate = None and endDate = "Some ''2024-01-31''"]
  by (simp only: api_not_found)

section \<open>The supervisor keeps one worker per source\<close>

lemma find_None_iff_notin: "find (\<lambda>w. source_id w = sid) ws = None \<longleftrightarrow> sid \<notin> source_id ` set ws"
  by (induction ws) auto

lemma step_keeps_one_worker:
  "one_worker_per_source sv \<Longrightarrow> one_worker_per_source (supervisor_step c sv)"
proof (cases c)
  case (EnsureWorker sid starts)
  then show "one_worker_per_source sv \<Longrightarrow> ?thesis"
    by (auto simp: one_worker_per_source_def ensure_worker_def Let_def find_None_iff_notin
        split: option.splits)
next
  case (StopWorker sid)
  then show "one_worker_per_source sv \<Longrightarrow> ?thesis"
    by (simp add: one_worker_per_source_def stop_worker_def distinct_map_filter)
next
  case (ProcessExit p)
  then show "one_worker_per_source sv \<Longrightarrow> ?thesis"
    by (simp add: one_worker_per_source_def process_exit_def distinct_map_filter)
qed

lemma run_keeps_one_worker:
  "one_worker_per_source sv \<Longrightarrow> one_worker_per_source (supervisor_run cs sv)"
  by (induction cs arbitrary: sv) (simp_all add: step_keeps_one_worker)

lemma distinct_live_le_1:
  "distinct (map source_id ws) \<Longrightarrow> length (filter (\<lambda>w. source_id w = sid) ws) \<le> 1"
  by (induction ws) (auto simp: filter_empty_conv image_iff)

lemma ensure_worker_idempotent:
  assumes "ensure_worker sid starts sv = (Inr h, sv')"
  shows "ensure_worker sid starts' sv' = (Inr h, sv')"
  using assms
  by (auto simp: ensure_worker_def Let_def split: option.splits if_splits)

lemma storm_from_live:
  "find (\<lambda>w. source_id w = sid) (workers sv) = Some w \<Longrightarrow>
     supervisor_run (replicate n (EnsureWorker sid True)) sv = sv"
  by (induction n) (simp_all add: ensure_worker_def)

lemma storm_spawns_once:
  assumes "find (\<lambda>w. source_id w = sid) (workers sv) = None" "0 < n"
  shows "spawned (supervisor_run (replicate n (EnsureWorker sid True)) sv) =
           (sid, next_process sv) # spawned sv"
proof -
  from assms(2) obtain m where n: "n = Suc m" by (cases n) auto
  let ?w = "\<lparr>source_id = sid, process = next_process sv\<rparr>"
  let ?sv1 = "sv\<lparr>workers := ?w # workers sv,
                     next_process := Suc (next_process sv),
                     spawned := (sid, next_process sv) # spawned sv\<rparr>"
  have 1: "supervisor_step (EnsureWorker sid True) sv = ?sv1"
    using assms(1) by (simp add: ensure_worker_def Let_def)
  have "find (\<lambda>w. source_id w = sid) (workers ?sv1) = Some ?w" by simp
  then have "supervisor_run (replicate m (EnsureWorker sid True)) ?sv1 = ?sv1"
    by (rule storm_from_live)
  with 1 n show ?thesis by simp
qed

text \<open>
  C6. At every instant at most one live worker exists for every source: after any
  sequence of serialised supervisor events, starting with no worker, the sources of the
  live workers are distinct, so that at most one worker is live for a source. A second
  call of \<open>ensure_worker\<close> returns the handle the first returned and changes nothing, and a
  storm of \<open>n > 0\<close> calls for a source without a worker spawns exactly one process.
\<close>

theorem ensure_worker_at_most_one:
  "one_worker_per_source (supervisor_run cs supervisor_init) \<and>
   length (live_workers sid (supervisor_run cs supervisor_init)) \<le> 1 \<and>
   (ensure_worker sid starts sv = (Inr h, sv') \<longrightarrow>
      ensure_worker sid starts' sv' = (Inr h, sv')) \<and>
   (find (\<lambda>w. source_id w = sid) (workers sv) = None \<and> 0 < n \<longrightarrow>
      spawned (supervisor_run (replicate n (EnsureWorker sid True)) sv) =
        (sid, next_process sv) # spawned sv)"
proof (intro conjI impI)
  have i: "one_worker_per_source supervisor_init"
    by (simp add: one_worker_per_source_def supervisor_init_def)
  then show a: "one_worker_per_source (supervisor_run cs supervisor_init)"
    by (rule run_keeps_one_worker)
  then show "length (live_workers sid (supervisor_run cs supervisor_init)) \<le> 1"
    using distinct_live_le_1 [of "workers (supervisor_run cs supervisor_init)" sid]
    by (simp add: live_workers_def one_worker_per_source_def)
next
  assume "ensure_worker sid starts sv = (Inr h, sv')"
  then show "ensure_worker sid starts' sv' = (Inr h, sv')"
    by (rule ensure_worker_idempotent)
next
  assume "find (\<lambda>w. source_id w = sid) (workers sv) = None \<and> 0 < n"
  then show "spawned (supervisor_run (replicate n (EnsureWorker sid True)) sv) =
        (sid, next_process sv) # spawned sv"
    using storm_spawns_once by blast
qed

theorem ensure_worker_at_most_one_witness:
  "ensure_worker 1 False supervisor_one = (Inr \<lparr>source_id = 1, process = 0\<rparr>, supervisor_one) \<and>
   spawned (supervisor_run (replicate 5 (EnsureWorker 1 True)) supervisor_init) = [(1, 0)]"
proof -
  have 1: "ensure_worker 1 True supervisor_init =
      (Inr \<lparr>source_id = 1, process = 0\<rparr>, supervisor_one)"
    by (simp add: ensure_worker_def supervisor_init_def supervisor_one_def Let_def)
  have 2: "find (\<lambda>w. source_id w = 1) (workers supervisor_init) = None \<and> (0::nat) < 5"
    by (simp add: supervisor_init_def)
  from ensure_worker_at_most_one [where sid = 1 and starts = True and sv = supervisor_init
      and h = "\<lparr>source_id = 1, process = 0\<rparr>" and sv' = supervisor_one
      and starts' = False] 1
  have a: "ensure_worker 1 False supervisor_one =
      (Inr \<lparr>source_id = 1, process = 0\<rparr>, supervisor_one)"
    by blast
  from ensure_worker_at_most_one [where sid = 1 and sv = supervisor_init and n = 5] 2
  have "spawned (supervisor_run (replicate 5 (EnsureWorker 1 True)) supervisor_init) =
      (1, next_process supervisor_init) # spawned supervisor_init"
    by blast
  then have b: "spawned (supervisor_run (replicate 5 (EnsureWorker 1 True)) supervisor_init) =
      [(1, 0)]"
    by (simp add: supervisor_init_def)
  from a b show ?thesis by blast
qed

section \<open>The manifest and the deleted chunks\<close>

lemma add_segment_consistent:
  assumes "store_consistent s"
  shows "store_consistent (add_segment window s)"
proof -
  define n where "n = next_sequence s"
  define l where "l = manifest s @ [n]"
  define k where "k = length l - window"
  from assms have fresh: "n \<notin> set (manifest s)" "n \<notin> set (stored s)"
      "n \<notin> set (deleted s)" "n \<notin> set (dropped s)"
    by (auto simp: store_consistent_def n_def)
  from assms fresh have d: "distinct l" by (simp add: store_consistent_def l_def)
  have l: "set l = insert n (set (manifest s))" by (simp add: l_def)
  have sub: "set (drop k l) \<subseteq> set l" "set (take k l) \<subseteq> set l"
    by (rule set_drop_subset, rule set_take_subset)
  have disj: "set (drop k l) \<inter> set (take k l) = {}"
    using d by (metis append_take_drop_id distinct_append inf_commute)
  have 1: "distinct (drop k l)" using d by (rule distinct_drop)
  have 2: "set (drop k l) \<subseteq> set (n # stored s)"
    using sub(1) l assms by (auto simp: store_consistent_def)
  have 3: "set (drop k l) \<inter> set (deleted s) = {}"
    using sub(1) l assms fresh by (auto simp: store_consistent_def)
  have 4: "set (drop k l) \<inter> set (dropped s @ take k l) = {}"
    using sub(1) l disj assms fresh by (auto simp: store_consistent_def)
  have 5: "set (n # stored s) \<inter> set (deleted s) = {}"
    using assms fresh by (auto simp: store_consistent_def)
  have 6: "\<forall>c \<in> set (n # stored s) \<union> set (deleted s) \<union> set (dropped s @ take k l).
      c < Suc n"
  proof
    fix c assume "c \<in> set (n # stored s) \<union> set (deleted s) \<union> set (dropped s @ take k l)"
    then have "c = n \<or> c \<in> set (stored s) \<union> set (deleted s) \<union> set (dropped s) \<or>
        c \<in> set (manifest s)"
      using sub(2) l by auto
    then show "c < Suc n"
      using assms by (auto simp: store_consistent_def less_Suc_eq n_def)
  qed
  have "add_segment window s =
      s\<lparr>stored := n # stored s, manifest := drop k l,
        dropped := dropped s @ take k l, next_sequence := Suc n\<rparr>"
    by (simp add: add_segment_def Let_def n_def l_def k_def)
  then show ?thesis
    using 1 2 3 4 5 6 by (simp add: store_consistent_def)
qed

lemma delete_dropped_consistent:
  assumes "store_consistent s"
  shows "store_consistent (delete_dropped s)"
proof (cases "dropped s")
  case Nil
  with assms show ?thesis by (simp add: delete_dropped_def)
next
  case (Cons c cs)
  with assms show ?thesis
    by (auto simp: delete_dropped_def store_consistent_def)
qed

lemma purge_consistent:
  assumes "store_consistent s"
  shows "store_consistent (purge s)"
  using assms by (auto simp: purge_def store_consistent_def)

lemma step_consistent:
  "store_consistent s \<Longrightarrow> store_consistent (segment_store_step window c s)"
  by (cases c) (simp_all add: add_segment_consistent delete_dropped_consistent purge_consistent)

lemma run_consistent:
  "store_consistent s \<Longrightarrow> store_consistent (segment_store_run window cs s)"
  by (induction cs arbitrary: s) (simp_all add: step_consistent)

lemma init_consistent: "store_consistent segment_store_init"
  by (simp add: store_consistent_def segment_store_init_def)

lemma delete_dropped_deleted:
  "set (deleted (delete_dropped s)) \<subseteq> set (deleted s) \<union> set (dropped s)"
  by (cases "dropped s") (auto simp: delete_dropped_def)

text \<open>
  C7. In every reachable state of the Segment Store the manifest references no chunk
  that was deleted from storage, and every chunk it references is in storage. Deletion
  comes after the rewrite that drops the reference: the chunks awaiting deletion are not
  referenced, and what a deletion step deletes is not referenced by the manifest it finds.
\<close>

theorem manifest_never_references_deleted:
  "set (manifest (segment_store_run window cs segment_store_init)) \<inter>
     set (deleted (segment_store_run window cs segment_store_init)) = {} \<and>
   set (manifest (segment_store_run window cs segment_store_init)) \<subseteq>
     set (stored (segment_store_run window cs segment_store_init)) \<and>
   set (manifest (segment_store_run window cs segment_store_init)) \<inter>
     set (dropped (segment_store_run window cs segment_store_init)) = {} \<and>
   set (manifest (segment_store_run window cs segment_store_init)) \<inter>
     set (deleted (delete_dropped (segment_store_run window cs segment_store_init))) = {}"
proof -
  let ?s = "segment_store_run window cs segment_store_init"
  have c: "store_consistent ?s"
    by (rule run_consistent [OF init_consistent])
  then have "set (manifest ?s) \<inter> set (deleted ?s) = {}" "set (manifest ?s) \<subseteq> set (stored ?s)"
    "set (manifest ?s) \<inter> set (dropped ?s) = {}"
    by (simp_all add: store_consistent_def)
  moreover from this delete_dropped_deleted [of ?s]
  have "set (manifest ?s) \<inter> set (deleted (delete_dropped ?s)) = {}"
    by blast
  ultimately show ?thesis by blast
qed

end
